theory Spec2Isabelle
  imports Main
begin

section \<open>Python values\<close>

text \<open>
  The values that \<open>json.loads\<close> produces: \<open>None\<close>, booleans, integers, strings,
  lists and dictionaries. A dictionary is an association list in insertion order
  (Python dictionaries keep it, and \<open>str\<close> of a dictionary prints in that order); its
  keys are pairwise distinct, see \<open>wf_json\<close>. Floating-point numbers are left out of
  the model. A string is a list of code points below 256.
\<close>

datatype json =
    JNull
  | JBool bool
  | JInt int
  | JStr string
  | JList "json list"
  | JObj "(string \<times> json) list"

text \<open>The exceptions (subclasses of \<open>Exception\<close>) that the program can meet.\<close>

datatype error =
    TypeError
  | KeyError
  | IndexError
  | JSONDecodeError
  | APIError
  | InsertError

type_synonym pydict = "(string \<times> json) list"

fun wf_json :: "json \<Rightarrow> bool" where
  "wf_json (JList xs) = list_all wf_json xs"
| "wf_json (JObj kvs) = (distinct (map fst kvs) \<and> list_all (\<lambda>kv. wf_json (snd kv)) kvs)"
| "wf_json _ = True"

subsection \<open>Equality (\<open>==\<close>)\<close>

text \<open>
  Python's \<open>==\<close> on these values: \<open>True == 1\<close> and \<open>False == 0\<close> hold, lists are
  compared element by element, dictionaries have the same number of keys and equal
  values under each key, whatever the order; values of different kinds are unequal.
\<close>

fun py_eq :: "json \<Rightarrow> json \<Rightarrow> bool" where
  "py_eq JNull JNull = True"
| "py_eq (JBool a) (JBool b) = (a = b)"
| "py_eq (JBool a) (JInt j) = ((if a then 1 else 0) = j)"
| "py_eq (JInt i) (JBool b) = (i = (if b then 1 else 0))"
| "py_eq (JInt i) (JInt j) = (i = j)"
| "py_eq (JStr s) (JStr t) = (s = t)"
| "py_eq (JList xs) (JList ys) = list_all2 py_eq xs ys"
| "py_eq (JObj kvs) (JObj kvs') =
     (length kvs = length kvs' \<and>
      list_all (\<lambda>kv. case map_of kvs' (fst kv) of
                         None \<Rightarrow> False
                       | Some v' \<Rightarrow> py_eq (snd kv) v') kvs)"
| "py_eq _ _ = False"

text \<open>\<open>x in xs\<close> on a list.\<close>

definition py_in :: "json \<Rightarrow> json list \<Rightarrow> bool" where
  "py_in x xs = list_ex (py_eq x) xs"

subsection \<open>\<open>str\<close> and \<open>repr\<close>\<close>

definition digit_char :: "nat \<Rightarrow> char" where
  "digit_char d = char_of (48 + d)"

fun nat_str :: "nat \<Rightarrow> string" where
  "nat_str n = (if n < 10 then [digit_char n] else nat_str (n div 10) @ [digit_char (n mod 10)])"

declare nat_str.simps [simp del]

definition int_str :: "int \<Rightarrow> string" where
  "int_str i = (if i < 0 then CHR ''-'' # nat_str (nat (- i)) else nat_str (nat i))"

definition hex_char :: "nat \<Rightarrow> char" where
  "hex_char d = (if d < 10 then char_of (48 + d) else char_of (87 + d))"

definition printable :: "char \<Rightarrow> bool" where
  "printable c = (let n = (of_char c :: nat) in
     (32 \<le> n \<and> n < 127) \<or> (161 \<le> n \<and> n \<le> 255 \<and> n \<noteq> 173))"

text \<open>One character inside the quotes \<open>q\<close> of a string's \<open>repr\<close>.\<close>

definition repr_char :: "char \<Rightarrow> char \<Rightarrow> string" where
  "repr_char q c =
     (if c = q \<or> c = CHR 0x5C then [CHR 0x5C, c]
      else if c = CHR 0x09 then [CHR 0x5C, CHR ''t'']
      else if c = CHR 0x0A then [CHR 0x5C, CHR ''n'']
      else if c = CHR 0x0D then [CHR 0x5C, CHR ''r'']
      else if printable c then [c]
      else [CHR 0x5C, CHR ''x'', hex_char (of_char c div 16), hex_char (of_char c mod 16)])"

text \<open>
  \<open>repr\<close> of a string: single quotes, unless the string has a single quote and no
  double quote.
\<close>

definition str_repr :: "string \<Rightarrow> string" where
  "str_repr s =
     (let q = (if CHR 0x27 \<in> set s \<and> CHR 0x22 \<notin> set s then CHR 0x22 else CHR 0x27)
      in q # concat (map (repr_char q) s) @ [q])"

text \<open>\<open>sep.join(xs)\<close>.\<close>

fun join :: "string \<Rightarrow> string list \<Rightarrow> string" where
  "join sep [] = []"
| "join sep [x] = x"
| "join sep (x # y # ys) = x @ sep @ join sep (y # ys)"

fun py_repr :: "json \<Rightarrow> string" where
  "py_repr JNull = ''None''"
| "py_repr (JBool b) = (if b then ''True'' else ''False'')"
| "py_repr (JInt i) = int_str i"
| "py_repr (JStr s) = str_repr s"
| "py_repr (JList xs) = ''['' @ join '', '' (map py_repr xs) @ '']''"
| "py_repr (JObj kvs) =
     ''{'' @ join '', '' (map (\<lambda>kv. str_repr (fst kv) @ '': '' @ py_repr (snd kv)) kvs) @ ''}''"

text \<open>\<open>str(v)\<close>, which an f-string applies to \<open>{v}\<close>: a string is itself.\<close>

definition py_str :: "json \<Rightarrow> string" where
  "py_str v = (case v of JStr s \<Rightarrow> s | _ \<Rightarrow> py_repr v)"

text \<open>\<open>s.capitalize()\<close>, for ASCII strings: first character upper case, the rest lower case.\<close>

definition ascii_upper :: "char \<Rightarrow> char" where
  "ascii_upper c = (let n = (of_char c :: nat) in if 97 \<le> n \<and> n \<le> 122 then char_of (n - 32) else c)"

definition ascii_lower :: "char \<Rightarrow> char" where
  "ascii_lower c = (let n = (of_char c :: nat) in if 65 \<le> n \<and> n \<le> 90 then char_of (n + 32) else c)"

definition capitalize :: "string \<Rightarrow> string" where
  "capitalize s = (case s of [] \<Rightarrow> [] | c # cs \<Rightarrow> ascii_upper c # map ascii_lower cs)"

section \<open>\<open>format_information\<close>\<close>

text \<open>One pass of the loop body over an item \<open>(key, value)\<close> of the dictionary.\<close>

definition format_item :: "string \<Rightarrow> string \<Rightarrow> string \<times> json \<Rightarrow> string" where
  "format_item url prompt kv =
     (if py_eq (snd kv) (JList [JStr ''no info''])
      then prompt @ ''- There is not much information available about '' @ capitalize (fst kv)
             @ ''. You can check it manually by visiting the website: '' @ url @ [CHR 0x0A]
      else prompt @ ''- '' @ capitalize (fst kv) @ '': '' @ py_str (snd kv) @ [CHR 0x0A])"

definition format_information :: "pydict \<Rightarrow> string \<Rightarrow> string" where
  "format_information extracted_info url =
     foldl (format_item url) (''The information from the URL is the following: '' @ [CHR 0x0A])
       extracted_info"

section \<open>The outside world\<close>

text \<open>
  What \<open>BeautifulSoup\<close> reads off a fetched page: \<open>get_text(separator=' ', strip=True)\<close>
  and, for every \<open>a\<close> element with an \<open>href\<close>, the pair of the \<open>href\<close> and of the
  element's stripped text, in document order.
\<close>

record page =
  page_text :: string
  page_anchors :: "(string \<times> string) list"

text \<open>\<open>requests.get\<close> raises a \<open>RequestException\<close> or returns a status code and a body.\<close>

datatype http_result =
    RequestFailed
  | HttpResponse nat page

text \<open>An object of the collection: its identifier and its properties.\<close>

record obj =
  obj_uuid :: string
  obj_props :: pydict

text \<open>
  The libraries and services the program calls, as parameters: the GET of a URL,
  \<open>urllib.parse.urljoin\<close>, the chat completion (the JSON text of the response, or an
  exception), \<open>json.loads\<close>, \<open>weaviate.util.generate_uuid5\<close> and the nearest-neighbour
  search of the index (over the objects it holds, for a query text and a limit).
\<close>

record env =
  requests_get :: "string \<Rightarrow> http_result"
  urljoin :: "string \<Rightarrow> string \<Rightarrow> string"
  chat_create :: "string \<Rightarrow> error + string"
  json_loads :: "string \<Rightarrow> error + json"
  generate_uuid5 :: "pydict \<Rightarrow> string"
  near_text :: "obj list \<Rightarrow> string \<Rightarrow> nat \<Rightarrow> obj list"

text \<open>The calls that leave the process, in the order they are made.\<close>

datatype event =
    HttpGet string
  | ChatCreate string
  | FetchObjects "string list"
  | DataInsert pydict string
  | NearText string nat bool

text \<open>The state shared between requests: the collection, and the log of calls.\<close>

record world =
  store :: "obj list"
  calls :: "event list"

definition log :: "event \<Rightarrow> world \<Rightarrow> world" where
  "log e w = w\<lparr>calls := calls w @ [e]\<rparr>"

subsection \<open>The collection\<close>

text \<open>
  Modelled from the spec: the external index is not part of the repository. Section 4.5
  gives its contract: the existence check fetches all existing records with the
  \<open>vc_name\<close> property only; an insert with an explicit identifier appends a record, and
  an insert under an identifier that is already taken collides.
\<close>

definition fetch_objects :: "string list \<Rightarrow> obj list \<Rightarrow> obj list" where
  "fetch_objects return_properties objs =
     map (\<lambda>ob. ob\<lparr>obj_props := filter (\<lambda>kv. fst kv \<in> set return_properties) (obj_props ob)\<rparr>) objs"

definition data_insert :: "pydict \<Rightarrow> string \<Rightarrow> obj list \<Rightarrow> error + obj list" where
  "data_insert properties uuid objs =
     (if uuid \<in> set (map obj_uuid objs) then Inl InsertError
      else Inr (objs @ [\<lparr>obj_uuid = uuid, obj_props = properties\<rparr>]))"

text \<open>\<open>[o.properties[k] for o in objects]\<close>: a missing key raises.\<close>

fun property_list :: "string \<Rightarrow> obj list \<Rightarrow> error + json list" where
  "property_list k [] = Inr []"
| "property_list k (ob # obs) =
     (case map_of (obj_props ob) k of
        None \<Rightarrow> Inl KeyError
      | Some v \<Rightarrow> (case property_list k obs of Inl e \<Rightarrow> Inl e | Inr vs \<Rightarrow> Inr (v # vs)))"

section \<open>\<open>scrape_texts_and_links\<close>\<close>

text \<open>\<open>raise_for_status\<close> raises for the status codes from 400 to 599.\<close>

definition scrape_texts_and_links :: "env \<Rightarrow> string \<Rightarrow> world \<Rightarrow> (string \<times> string) option \<times> world" where
  "scrape_texts_and_links env url w =
     (case requests_get env url of
        RequestFailed \<Rightarrow> None
      | HttpResponse status pg \<Rightarrow>
          if 400 \<le> status \<and> status < 600 then None
          else
            let texts = page_text pg;
                links = join '' '' (map (\<lambda>link. urljoin env url (fst link) @ '' ('' @ snd link @ '')'')
                                      (page_anchors pg))
            in Some (texts, links),
      log (HttpGet url) w)"

section \<open>\<open>extract_vc_information\<close>\<close>

text \<open>\<open>v[k]\<close> for a string key, \<open>v[0]\<close>, and \<open>json.loads(v)\<close> on a value.\<close>

definition getitem :: "json \<Rightarrow> string \<Rightarrow> error + json" where
  "getitem v k =
     (case v of
        JObj kvs \<Rightarrow> (case map_of kvs k of None \<Rightarrow> Inl KeyError | Some x \<Rightarrow> Inr x)
      | _ \<Rightarrow> Inl TypeError)"

definition getitem0 :: "json \<Rightarrow> error + json" where
  "getitem0 v =
     (case v of
        JList xs \<Rightarrow> (case xs of [] \<Rightarrow> Inl IndexError | x # _ \<Rightarrow> Inr x)
      | JStr s \<Rightarrow> (case s of [] \<Rightarrow> Inl IndexError | c # _ \<Rightarrow> Inr (JStr [c]))
      | JObj kvs \<Rightarrow> Inl KeyError
      | _ \<Rightarrow> Inl TypeError)"

definition loads_value :: "env \<Rightarrow> json \<Rightarrow> error + json" where
  "loads_value env v = (case v of JStr s \<Rightarrow> json_loads env s | _ \<Rightarrow> Inl TypeError)"

text \<open>\<open>json.loads(response_json)[k]\<close>.\<close>

definition loads_field :: "env \<Rightarrow> json \<Rightarrow> string \<Rightarrow> error + json" where
  "loads_field env response_json k =
     (case loads_value env response_json of Inl e \<Rightarrow> Inl e | Inr v \<Rightarrow> getitem v k)"

text \<open>\<open>[x] if isinstance(x, str) else x\<close>.\<close>

definition wrap_str :: "json \<Rightarrow> json" where
  "wrap_str x = (case x of JStr s \<Rightarrow> JList [JStr s] | _ \<Rightarrow> x)"

text \<open>The body of the \<open>try\<close> block, after the call of the model.\<close>

definition message_content :: "env \<Rightarrow> string \<Rightarrow> error + json" where
  "message_content env response =
     (case json_loads env response of Inl e \<Rightarrow> Inl e | Inr r \<Rightarrow>
       (case getitem r ''choices'' of Inl e \<Rightarrow> Inl e | Inr choices \<Rightarrow>
         (case getitem0 choices of Inl e \<Rightarrow> Inl e | Inr choice \<Rightarrow>
           (case getitem choice ''message'' of Inl e \<Rightarrow> Inl e | Inr message \<Rightarrow>
              getitem message ''content''))))"

definition extract_body :: "env \<Rightarrow> string \<Rightarrow> error + pydict" where
  "extract_body env text =
     (case chat_create env text of Inl e \<Rightarrow> Inl e | Inr response \<Rightarrow>
       (case message_content env response of Inl e \<Rightarrow> Inl e | Inr response_json \<Rightarrow>
         (case loads_field env response_json ''vc_name'' of Inl e \<Rightarrow> Inl e | Inr vc_name \<Rightarrow>
           (case loads_field env response_json ''contacts'' of Inl e \<Rightarrow> Inl e | Inr contacts \<Rightarrow>
             (case loads_field env response_json ''industries'' of Inl e \<Rightarrow> Inl e
              | Inr industries \<Rightarrow>
               (case loads_field env response_json ''investment_rounds'' of Inl e \<Rightarrow> Inl e
                | Inr investment_rounds \<Rightarrow>
                    Inr [(''vc_name'', vc_name),
                         (''contacts'', wrap_str contacts),
                         (''industries'', wrap_str industries),
                         (''investment_rounds'', wrap_str investment_rounds)]))))))"

text \<open>\<open>except Exception\<close>: every error of the body becomes \<open>None\<close>.\<close>

definition extract_vc_information :: "env \<Rightarrow> string \<Rightarrow> world \<Rightarrow> pydict option \<times> world" where
  "extract_vc_information env text w =
     (case extract_body env text of Inl e \<Rightarrow> None | Inr extracted_info \<Rightarrow> Some extracted_info,
      log (ChatCreate text) w)"

section \<open>\<open>process_vc_url\<close>\<close>

text \<open>
  What a request ends in: the returned value (the one string of the returned set), an
  \<open>HTTPException\<close> with its status code and detail, or an exception that nothing
  catches.
\<close>

datatype outcome =
    Returned string
  | HTTPException nat string
  | Unhandled error

text \<open>The existence check and the insert.\<close>

definition check_and_insert :: "env \<Rightarrow> pydict \<Rightarrow> world \<Rightarrow> (error + unit) \<times> world" where
  "check_and_insert env extracted_info w =
     (let w1 = log (FetchObjects [''vc_name'']) w;
          objects = fetch_objects [''vc_name''] (store w1)
      in case map_of extracted_info ''vc_name'' of
           None \<Rightarrow> (Inl KeyError, w1)
         | Some name \<Rightarrow>
             (case property_list ''vc_name'' objects of
                Inl e \<Rightarrow> (Inl e, w1)
              | Inr names \<Rightarrow>
                  if \<not> py_in name names then
                    let uuid = generate_uuid5 env extracted_info;
                        w2 = log (DataInsert extracted_info uuid) w1
                    in (case data_insert extracted_info uuid (store w2) of
                          Inl e \<Rightarrow> (Inl e, w2)
                        | Inr objs \<Rightarrow> (Inr (), w2\<lparr>store := objs\<rparr>))
                  else (Inr (), w1)))"

text \<open>The similarity query and the returned message.\<close>

definition similar_and_respond :: "env \<Rightarrow> string \<Rightarrow> pydict \<Rightarrow> world \<Rightarrow> outcome \<times> world" where
  "similar_and_respond env url extracted_info w =
     (let user_friendly_text = format_information extracted_info url;
          query = py_repr (JObj extracted_info);
          w1 = log (NearText query 3 True) w;
          objects = near_text env (store w1) query 3
      in case property_list ''vc_name'' objects of
           Inl e \<Rightarrow> (Unhandled e, w1)
         | Inr names \<Rightarrow>
             (Returned (''Message: '' @ user_friendly_text @ '' '' @ [CHR 0x0A]
                        @ '' Similar companies: '' @ py_repr (JList names)), w1))"

text \<open>
  The handler. Unpacking \<open>None\<close> into \<open>texts, links\<close> raises a \<open>TypeError\<close>; the
  concatenation of two strings is never \<open>None\<close>, so the test after it never fires.
\<close>

definition process_vc_url :: "env \<Rightarrow> string \<Rightarrow> world \<Rightarrow> outcome \<times> world" where
  "process_vc_url env url w =
     (case scrape_texts_and_links env url w of
        (None, w1) \<Rightarrow> (Unhandled TypeError, w1)
      | (Some (texts, links), w1) \<Rightarrow>
          let text = texts @ links
          in (case extract_vc_information env text w1 of
                (None, w2) \<Rightarrow> (HTTPException 500 ''Failed to extract information.'', w2)
              | (Some extracted_info, w2) \<Rightarrow>
                  if extracted_info = []
                  then (HTTPException 500 ''Failed to extract information.'', w2)
                  else (case check_and_insert env extracted_info w2 of
                          (Inl e, w3) \<Rightarrow> (Unhandled e, w3)
                        | (Inr u, w3) \<Rightarrow> similar_and_respond env url extracted_info w3)))"

section \<open>Notions of the specification\<close>

definition is_str :: "json \<Rightarrow> bool" where
  "is_str v = (case v of JStr s \<Rightarrow> True | _ \<Rightarrow> False)"

definition is_sequence :: "json \<Rightarrow> bool" where
  "is_sequence v = (case v of JList xs \<Rightarrow> True | _ \<Rightarrow> False)"

text \<open>
  The line of the summary for one field, as section 4.4 of the specification words it:
  the check-manually sentence for the value \<open>["no info"]\<close>, and \<open>- Field: value\<close>
  for any other value. The name is the capitalized field name.
\<close>

definition summary_line :: "string \<Rightarrow> string \<Rightarrow> json \<Rightarrow> string" where
  "summary_line url name v =
     (if v = JList [JStr ''no info'']
      then ''- There is not much information available about '' @ name
             @ ''. You can check it manually by visiting the website: '' @ url @ [CHR 0x0A]
      else ''- '' @ name @ '': '' @ py_str v @ [CHR 0x0A])"

text \<open>The events of a log that are inserts into the collection.\<close>

definition is_insert :: "event \<Rightarrow> bool" where
  "is_insert ev = (case ev of DataInsert d u \<Rightarrow> True | _ \<Rightarrow> False)"

section \<open>A concrete run\<close>

text \<open>
  The end-to-end scenario of the specification: the page of \<open>https://example-vc.com\<close>
  with one anchor, a page without anchors, and every other URL answering 404. The model
  answers with an envelope whose message content is the record of Acme Ventures.
\<close>

definition acme_page :: page where
  "acme_page = \<lparr>page_text = ''Acme Ventures invests in fintech. Contact: hello@acme.vc'',
                 page_anchors = [(''/contact'', ''Contact Us'')]\<rparr>"

definition plain_page :: page where
  "plain_page = \<lparr>page_text = ''Acme Ventures invests in fintech.'', page_anchors = []\<rparr>"

definition acme_envelope :: json where
  "acme_envelope =
     JObj [(''choices'', JList [JObj [(''message'', JObj [(''content'', JStr ''C'')])]])]"

definition acme_content :: json where
  "acme_content =
     JObj [(''vc_name'', JStr ''Acme Ventures''),
           (''contacts'', JStr ''hello@acme.vc''),
           (''industries'', JList [JStr ''fintech'']),
           (''investment_rounds'', JStr ''no info'')]"

definition acme_record :: pydict where
  "acme_record =
     [(''vc_name'', JStr ''Acme Ventures''),
      (''contacts'', JList [JStr ''hello@acme.vc'']),
      (''industries'', JList [JStr ''fintech'']),
      (''investment_rounds'', JList [JStr ''no info''])]"

definition acme_env :: env where
  "acme_env =
     \<lparr>requests_get = (\<lambda>u. if u = ''https://example-vc.com'' then HttpResponse 200 acme_page
                           else if u = ''https://example-vc.com/plain'' then HttpResponse 200 plain_page
                           else HttpResponse 404 \<lparr>page_text = ''Not Found'', page_anchors = []\<rparr>),
      urljoin = (\<lambda>base href. base @ href),
      chat_create = (\<lambda>text. Inr ''R''),
      json_loads = (\<lambda>s. if s = ''R'' then Inr acme_envelope
                         else if s = ''C'' then Inr acme_content
                         else Inl JSONDecodeError),
      generate_uuid5 = (\<lambda>d. ''uuid5 of '' @ py_repr (JObj d)),
      near_text = (\<lambda>objs query limit. take limit objs)\<rparr>"

text \<open>The same site when the model leaves out the key \<open>industries\<close>.\<close>

definition partial_env :: env where
  "partial_env =
     acme_env\<lparr>json_loads := (\<lambda>s. if s = ''R'' then Inr acme_envelope
                                  else if s = ''C'' then
                                    Inr (JObj [(''vc_name'', JStr ''Acme Ventures''),
                                               (''contacts'', JStr ''hello@acme.vc'')])
                                  else Inl JSONDecodeError)\<rparr>"

text \<open>The same site when the model finds other contacts, and no name at all.\<close>

definition other_content :: json where
  "other_content =
     JObj [(''vc_name'', JStr ''Acme Ventures''),
           (''contacts'', JList [JStr ''+1 555 0100'']),
           (''industries'', JStr ''healthtech''),
           (''investment_rounds'', JList [JStr ''Seed''])]"

definition other_record :: pydict where
  "other_record =
     [(''vc_name'', JStr ''Acme Ventures''),
      (''contacts'', JList [JStr ''+1 555 0100'']),
      (''industries'', JList [JStr ''healthtech'']),
      (''investment_rounds'', JList [JStr ''Seed''])]"

definition other_env :: env where
  "other_env =
     acme_env\<lparr>json_loads := (\<lambda>s. if s = ''R'' then Inr acme_envelope
                                  else if s = ''C'' then Inr other_content
                                  else Inl JSONDecodeError)\<rparr>"

definition noname_env :: env where
  "noname_env =
     acme_env\<lparr>json_loads := (\<lambda>s. if s = ''R'' then Inr acme_envelope
                                  else if s = ''C'' then
                                    Inr (JObj [(''vc_name'', JStr ''no info''),
                                               (''contacts'', JStr ''no info''),
                                               (''industries'', JStr ''no info''),
                                               (''investment_rounds'', JStr ''no info'')])
                                  else Inl JSONDecodeError)\<rparr>"

definition empty_world :: world where
  "empty_world = \<lparr>store = [], calls = []\<rparr>"

definition acme_object :: obj where
  "acme_object = \<lparr>obj_uuid = generate_uuid5 acme_env acme_record, obj_props = acme_record\<rparr>"

text \<open>The world after the first submission of \<open>https://example-vc.com\<close>.\<close>

definition acme_after :: world where
  "acme_after =
     \<lparr>store = [acme_object],
      calls = [HttpGet ''https://example-vc.com'',
               ChatCreate (''Acme Ventures invests in fintech. Contact: hello@acme.vc''
                           @ ''https://example-vc.com/contact (Contact Us)''),
               FetchObjects [''vc_name''],
               DataInsert acme_record (generate_uuid5 acme_env acme_record),
               NearText (py_repr (JObj acme_record)) 3 True]\<rparr>"

text \<open>The same site when the model gives the contact as a number and no rounds.\<close>

definition numeric_content :: json where
  "numeric_content =
     JObj [(''vc_name'', JStr ''Acme Ventures''),
           (''contacts'', JInt 5550100),
           (''industries'', JList [JStr ''fintech'']),
           (''investment_rounds'', JNull)]"

definition numeric_record :: pydict where
  "numeric_record =
     [(''vc_name'', JStr ''Acme Ventures''),
      (''contacts'', JInt 5550100),
      (''industries'', JList [JStr ''fintech'']),
      (''investment_rounds'', JNull)]"

definition numeric_env :: env where
  "numeric_env =
     acme_env\<lparr>json_loads := (\<lambda>s. if s = ''R'' then Inr acme_envelope
                                  else if s = ''C'' then Inr numeric_content
                                  else Inl JSONDecodeError)\<rparr>"

section \<open>Lemmas\<close>

subsection \<open>Values\<close>

lemma py_eq_JStr_right: "py_eq v (JStr s) = (v = JStr s)"
  by (cases v) auto

lemma py_eq_no_info: "py_eq v (JList [JStr s]) = (v = JList [JStr s])"
proof (cases v)
  case (JList xs)
  have "list_all2 py_eq xs [JStr s] = (xs = [JStr s])"
    by (cases xs) (auto simp: py_eq_JStr_right list_all2_Cons2)
  with JList show ?thesis by simp
qed auto

lemma py_eq_refl: "wf_json v \<Longrightarrow> py_eq v v"
proof (induction v)
  case (JList xs)
  then show ?case by (auto simp: list_all2_same list_all_iff)
next
  case (JObj kvs)
  have "list_all (\<lambda>kv. case map_of kvs (fst kv) of None \<Rightarrow> False | Some v' \<Rightarrow> py_eq (snd kv) v') kvs"
    unfolding list_all_iff
  proof
    fix kv assume kv: "kv \<in> set kvs"
    from JObj.prems have d: "distinct (map fst kvs)" and w: "wf_json (snd kv)"
      using kv by (auto simp: list_all_iff)
    from d kv have "map_of kvs (fst kv) = Some (snd kv)" by (cases kv) simp
    moreover have "py_eq (snd kv) (snd kv)"
      using JObj.IH[of kv "snd kv"] kv w by (cases kv) auto
    ultimately show "case map_of kvs (fst kv) of None \<Rightarrow> False | Some v' \<Rightarrow> py_eq (snd kv) v'"
      by simp
  qed
  then show ?case by simp
qed auto

lemma capitalize_vc_name: "capitalize ''vc_name'' = ''Vc_name''" by code_simp
lemma capitalize_contacts: "capitalize ''contacts'' = ''Contacts''" by code_simp
lemma capitalize_industries: "capitalize ''industries'' = ''Industries''" by code_simp
lemma capitalize_investment_rounds: "capitalize ''investment_rounds'' = ''Investment_rounds''" by code_simp

lemma map_of_filter_key:
  "map_of (filter (\<lambda>kv. fst kv = k) ps) k = map_of ps k"
  by (induction ps) auto

lemma property_list_fetch:
  "property_list k (fetch_objects [k] objs) = property_list k objs"
  by (induction objs) (auto simp: fetch_objects_def map_of_filter_key split: option.splits sum.splits)

lemma property_list_in:
  "property_list k objs = Inr vs \<Longrightarrow>
   py_in n vs = (\<exists>ob\<in>set objs. \<exists>m. map_of (obj_props ob) k = Some m \<and> py_eq n m)"
proof (induction objs arbitrary: vs)
  case Nil
  then show ?case by (simp add: py_in_def)
next
  case (Cons ob obs)
  then show ?case
    by (auto simp: py_in_def split: option.splits sum.splits)
qed

subsection \<open>The functions of the program\<close>

lemma scrape_world: "snd (scrape_texts_and_links env url w) = log (HttpGet url) w"
  by (simp add: scrape_texts_and_links_def)

lemma extract_world: "snd (extract_vc_information env text w) = log (ChatCreate text) w"
  by (simp add: extract_vc_information_def)

lemma extract_result:
  "fst (extract_vc_information env text w) =
     (case extract_body env text of Inl e \<Rightarrow> None | Inr ei \<Rightarrow> Some ei)"
  by (simp add: extract_vc_information_def)

lemma extract_body_shape:
  assumes "extract_body env text = Inr ei"
  shows "\<exists>r c a b i d. chat_create env text = Inr r \<and> message_content env r = Inr c
           \<and> loads_field env c ''vc_name'' = Inr a
           \<and> loads_field env c ''contacts'' = Inr b
           \<and> loads_field env c ''industries'' = Inr i
           \<and> loads_field env c ''investment_rounds'' = Inr d
           \<and> ei = [(''vc_name'', a), (''contacts'', wrap_str b),
                    (''industries'', wrap_str i), (''investment_rounds'', wrap_str d)]"
  using assms unfolding extract_body_def
  by (auto split: sum.splits)

lemma check_and_insert_present:
  assumes "map_of ei ''vc_name'' = Some n" and "ob \<in> set (store w)"
    and "map_of (obj_props ob) ''vc_name'' = Some m" and "py_eq n m"
  shows "snd (check_and_insert env ei w) = log (FetchObjects [''vc_name'']) w"
proof (cases "property_list ''vc_name'' (store w)")
  case (Inl e)
  then show ?thesis
    using assms by (simp add: check_and_insert_def Let_def property_list_fetch log_def)
next
  case (Inr names)
  from property_list_in[OF Inr, of n] assms have "py_in n names" by blast
  with Inr show ?thesis
    using assms by (simp add: check_and_insert_def Let_def property_list_fetch log_def)
qed

lemma check_and_insert_store:
  assumes "check_and_insert env ei w = (r, w')"
  shows "(store w' = store w \<and>
            (calls w' = calls w @ [FetchObjects [''vc_name'']] \<or>
             r = Inl InsertError \<and>
             calls w' = calls w @ [FetchObjects [''vc_name''], DataInsert ei (generate_uuid5 env ei)]))
       \<or> (r = Inr () \<and>
          (\<exists>n. map_of ei ''vc_name'' = Some n \<and>
               (\<forall>ob\<in>set (store w). \<forall>m. map_of (obj_props ob) ''vc_name'' = Some m \<longrightarrow> \<not> py_eq n m)) \<and>
          store w' = store w @ [\<lparr>obj_uuid = generate_uuid5 env ei, obj_props = ei\<rparr>] \<and>
          calls w' = calls w @ [FetchObjects [''vc_name''], DataInsert ei (generate_uuid5 env ei)])"
proof (cases "map_of ei ''vc_name''")
  case None
  with assms show ?thesis by (auto simp: check_and_insert_def Let_def log_def)
next
  case (Some n)
  show ?thesis
  proof (cases "property_list ''vc_name'' (store w)")
    case (Inl e)
    with Some assms show ?thesis
      by (auto simp: check_and_insert_def Let_def log_def property_list_fetch)
  next
    case (Inr names)
    note pin = property_list_in[OF Inr, of n]
    show ?thesis
    proof (cases "py_in n names")
      case True
      with Some Inr assms show ?thesis
        by (auto simp: check_and_insert_def Let_def log_def property_list_fetch)
    next
      case False
      with pin have absent: "\<forall>ob\<in>set (store w). \<forall>m. map_of (obj_props ob) ''vc_name'' = Some m \<longrightarrow> \<not> py_eq n m"
        by blast
      from False Some Inr assms absent show ?thesis
        by (auto simp: check_and_insert_def Let_def log_def property_list_fetch data_insert_def
                 split: if_splits)
    qed
  qed
qed

lemma check_and_insert_ok_present:
  assumes "check_and_insert env ei w = (Inr u, w')" and "map_of ei ''vc_name'' = Some n"
    and "wf_json n"
  shows "\<exists>ob\<in>set (store w'). \<exists>m. map_of (obj_props ob) ''vc_name'' = Some m \<and> py_eq n m"
proof (cases "property_list ''vc_name'' (store w)")
  case (Inl e)
  with assms show ?thesis
    by (auto simp: check_and_insert_def Let_def log_def property_list_fetch)
next
  case (Inr names)
  note pin = property_list_in[OF Inr, of n]
  show ?thesis
  proof (cases "py_in n names")
    case True
    with assms Inr have "store w' = store w"
      by (auto simp: check_and_insert_def Let_def log_def property_list_fetch)
    with True pin show ?thesis by simp
  next
    case False
    with assms Inr have "store w' = store w @ [\<lparr>obj_uuid = generate_uuid5 env ei, obj_props = ei\<rparr>]"
      by (auto simp: check_and_insert_def Let_def log_def property_list_fetch data_insert_def
               split: if_splits)
    moreover have "py_eq n n" using assms(3) by (rule py_eq_refl)
    ultimately show ?thesis using assms(2) by auto
  qed
qed

lemma scrape_pair:
  "scrape_texts_and_links env url w = (fst (scrape_texts_and_links env url w), log (HttpGet url) w)"
  by (simp add: scrape_texts_and_links_def)

lemma process_fetch_failed:
  assumes "fst (scrape_texts_and_links env url w) = None"
  shows "process_vc_url env url w = (Unhandled TypeError, log (HttpGet url) w)"
  using assms scrape_pair[of env url w] by (simp add: process_vc_url_def)

lemma process_extract_failed:
  assumes "fst (scrape_texts_and_links env url w) = Some (texts, links)"
    and "extract_body env (texts @ links) = Inl e"
  shows "process_vc_url env url w =
           (HTTPException 500 ''Failed to extract information.'',
            log (ChatCreate (texts @ links)) (log (HttpGet url) w))"
  using assms scrape_pair[of env url w]
  by (simp add: process_vc_url_def extract_vc_information_def)

lemma process_extracted:
  assumes "fst (scrape_texts_and_links env url w) = Some (texts, links)"
    and "extract_body env (texts @ links) = Inr ei"
  shows "process_vc_url env url w =
           (case check_and_insert env ei (log (ChatCreate (texts @ links)) (log (HttpGet url) w)) of
              (Inl e, w3) \<Rightarrow> (Unhandled e, w3)
            | (Inr u, w3) \<Rightarrow> similar_and_respond env url ei w3)"
proof -
  from extract_body_shape[OF assms(2)] have "ei \<noteq> []" by auto
  then show ?thesis
    using assms scrape_pair[of env url w]
    by (simp add: process_vc_url_def extract_vc_information_def)
qed

lemma similar_world:
  "snd (similar_and_respond env url ei w) = log (NearText (py_repr (JObj ei)) 3 True) w"
  by (simp add: similar_and_respond_def Let_def split: sum.splits)

lemma similar_returned:
  assumes "similar_and_respond env url ei w = (Returned body, w')"
  shows "\<exists>names. property_list ''vc_name'' (near_text env (store w) (py_repr (JObj ei)) 3) = Inr names
           \<and> body = ''Message: '' @ format_information ei url @ '' '' @ [CHR 0x0A]
                      @ '' Similar companies: '' @ py_repr (JList names)"
  using assms by (auto simp: similar_and_respond_def Let_def log_def split: sum.splits)

lemma log_store: "store (log ev w) = store w"
  by (simp add: log_def)

lemma log_calls: "calls (log ev w) = calls w @ [ev]"
  by (simp add: log_def)

lemma process_store_cases:
  assumes "process_vc_url env url w = (r, w')"
  shows "store w' = store w
       \<or> (\<exists>texts links ei n.
            fst (scrape_texts_and_links env url w) = Some (texts, links) \<and>
            extract_body env (texts @ links) = Inr ei \<and>
            map_of ei ''vc_name'' = Some n \<and>
            (\<forall>ob\<in>set (store w). \<forall>m. map_of (obj_props ob) ''vc_name'' = Some m \<longrightarrow> \<not> py_eq n m) \<and>
            store w' = store w @ [\<lparr>obj_uuid = generate_uuid5 env ei, obj_props = ei\<rparr>])"
proof (cases "fst (scrape_texts_and_links env url w)")
  case None
  from process_fetch_failed[OF None] assms show ?thesis by (auto simp: log_store)
next
  case (Some tl)
  obtain texts links where tl: "tl = (texts, links)" by (cases tl)
  note sc = Some[unfolded tl]
  show ?thesis
  proof (cases "extract_body env (texts @ links)")
    case (Inl e)
    from process_extract_failed[OF sc Inl] assms show ?thesis by (auto simp: log_store)
  next
    case (Inr ei)
    let ?w2 = "log (ChatCreate (texts @ links)) (log (HttpGet url) w)"
    obtain c w3 where ci: "check_and_insert env ei ?w2 = (c, w3)" by (cases "check_and_insert env ei ?w2")
    have w2: "store ?w2 = store w" by (simp add: log_store)
    have w': "store w' = store w3"
    proof (cases c)
      case (Inl e)
      with process_extracted[OF sc Inr] ci assms show ?thesis by simp
    next
      case (Inr u)
      from assms have "w' = snd (process_vc_url env url w)" by simp
      also have "\<dots> = snd (similar_and_respond env url ei w3)"
        using process_extracted[OF sc \<open>extract_body env (texts @ links) = Inr ei\<close>] ci Inr by simp
      finally show ?thesis by (simp add: similar_world log_store)
    qed
    from check_and_insert_store[OF ci] show ?thesis
      unfolding w' w2 using sc Inr by blast
  qed
qed

lemma format_item_line:
  "format_item url prompt (k, v) = prompt @ summary_line url (capitalize k) v"
  by (simp add: format_item_def summary_line_def py_eq_no_info)

lemma process_calls_prefix:
  assumes "fst (scrape_texts_and_links env url w) = Some (texts, links)"
  shows "\<exists>evs. calls (snd (process_vc_url env url w))
           = calls w @ HttpGet url # ChatCreate (texts @ links) # evs"
proof (cases "extract_body env (texts @ links)")
  case (Inl e)
  from process_extract_failed[OF assms Inl] show ?thesis by (simp add: log_calls)
next
  case (Inr ei)
  let ?w2 = "log (ChatCreate (texts @ links)) (log (HttpGet url) w)"
  obtain c w3 where ci: "check_and_insert env ei ?w2 = (c, w3)" by (cases "check_and_insert env ei ?w2")
  from check_and_insert_store[OF ci] obtain evs where w3: "calls w3 = calls ?w2 @ evs" by blast
  have "\<exists>evs'. calls (snd (process_vc_url env url w)) = calls w3 @ evs'"
    using process_extracted[OF assms Inr] ci
    by (cases c) (simp_all add: similar_world log_calls)
  then show ?thesis using w3 by (auto simp: log_calls)
qed

lemma process_returned:
  assumes "process_vc_url env url w = (Returned body, w')"
  shows "\<exists>texts links ei w3.
           fst (scrape_texts_and_links env url w) = Some (texts, links) \<and>
           extract_body env (texts @ links) = Inr ei \<and>
           check_and_insert env ei (log (ChatCreate (texts @ links)) (log (HttpGet url) w))
             = (Inr (), w3) \<and>
           similar_and_respond env url ei w3 = (Returned body, w')"
proof (cases "fst (scrape_texts_and_links env url w)")
  case None
  from process_fetch_failed[OF None] assms show ?thesis by simp
next
  case (Some tl)
  obtain texts links where tl: "tl = (texts, links)" by (cases tl)
  note sc = Some[unfolded tl]
  show ?thesis
  proof (cases "extract_body env (texts @ links)")
    case (Inl e)
    from process_extract_failed[OF sc Inl] assms show ?thesis by simp
  next
    case (Inr ei)
    let ?w2 = "log (ChatCreate (texts @ links)) (log (HttpGet url) w)"
    obtain c w3 where ci: "check_and_insert env ei ?w2 = (c, w3)"
      by (cases "check_and_insert env ei ?w2")
    show ?thesis
    proof (cases c)
      case (Inl e)
      with process_extracted[OF sc Inr] ci assms show ?thesis by simp
    next
      case c: (Inr u)
      with process_extracted[OF sc Inr] ci assms
      have "similar_and_respond env url ei w3 = (Returned body, w')" by simp
      with sc Inr ci c show ?thesis by auto
    qed
  qed
qed

lemma present_no_insert:
  assumes sc: "fst (scrape_texts_and_links env url w) = Some (texts, links)"
    and ex: "extract_body env (texts @ links) = Inr ei"
    and n: "map_of ei ''vc_name'' = Some n"
    and ob: "ob \<in> set (store w)" "map_of (obj_props ob) ''vc_name'' = Some m" "py_eq n m"
  shows "store (snd (process_vc_url env url w)) = store w
       \<and> (\<exists>evs. calls (snd (process_vc_url env url w))
                   = calls w @ [HttpGet url, ChatCreate (texts @ links), FetchObjects [''vc_name'']]
                     @ evs
                \<and> (evs = [] \<or> evs = [NearText (py_repr (JObj ei)) 3 True]))"
proof -
  let ?w2 = "log (ChatCreate (texts @ links)) (log (HttpGet url) w)"
  obtain c w3 where ci: "check_and_insert env ei ?w2 = (c, w3)"
    by (cases "check_and_insert env ei ?w2")
  have "ob \<in> set (store ?w2)" using ob(1) by (simp add: log_store)
  from check_and_insert_present[OF n this ob(2,3), of env] ci
  have w3: "w3 = log (FetchObjects [''vc_name'']) ?w2" by simp
  have "snd (process_vc_url env url w) = w3
      \<or> snd (process_vc_url env url w) = log (NearText (py_repr (JObj ei)) 3 True) w3"
    using process_extracted[OF sc ex] ci
    by (cases c) (simp_all add: similar_world)
  then show ?thesis
    by (auto simp: w3 log_store log_calls)
qed

subsection \<open>The concrete run\<close>

lemma acme_chat: "chat_create acme_env text = Inr ''R''"
  by (simp add: acme_env_def)

lemma acme_loads:
  "json_loads acme_env ''R'' = Inr acme_envelope"
  "json_loads acme_env ''C'' = Inr acme_content"
  by (simp_all add: acme_env_def)

lemma envelope_content:
  "json_loads env r = Inr acme_envelope \<Longrightarrow> message_content env r = Inr (JStr ''C'')"
  by (simp add: message_content_def acme_envelope_def getitem_def getitem0_def)

lemma acme_extract_body: "extract_body acme_env text = Inr acme_record"
  by (simp add: extract_body_def acme_chat envelope_content acme_loads loads_field_def
      loads_value_def acme_content_def getitem_def wrap_str_def acme_record_def)

lemma numeric_chat: "chat_create numeric_env text = Inr ''R''"
  by (simp add: numeric_env_def acme_chat)

lemma numeric_loads:
  "json_loads numeric_env ''R'' = Inr acme_envelope"
  "json_loads numeric_env ''C'' = Inr numeric_content"
  by (simp_all add: numeric_env_def)

lemma numeric_extract_body: "extract_body numeric_env text = Inr numeric_record"
  by (simp add: extract_body_def numeric_chat envelope_content numeric_loads loads_field_def
      loads_value_def numeric_content_def getitem_def wrap_str_def numeric_record_def)

lemma partial_chat: "chat_create partial_env text = Inr ''R''"
  by (simp add: partial_env_def acme_chat)

lemma partial_loads:
  "json_loads partial_env ''R'' = Inr acme_envelope"
  "json_loads partial_env ''C'' = Inr (JObj [(''vc_name'', JStr ''Acme Ventures''),
                                               (''contacts'', JStr ''hello@acme.vc'')])"
  by (simp_all add: partial_env_def)

lemma noname_chat: "chat_create noname_env text = Inr ''R''"
  by (simp add: noname_env_def acme_chat)

lemma noname_loads:
  "json_loads noname_env ''R'' = Inr acme_envelope"
  "json_loads noname_env ''C'' = Inr (JObj [(''vc_name'', JStr ''no info''),
                                               (''contacts'', JStr ''no info''),
                                               (''industries'', JStr ''no info''),
                                               (''investment_rounds'', JStr ''no info'')])"
  by (simp_all add: noname_env_def)

lemma noname_extract_body:
  "extract_body noname_env text = Inr [(''vc_name'', JStr ''no info''),
      (''contacts'', JList [JStr ''no info'']),
      (''industries'', JList [JStr ''no info'']),
      (''investment_rounds'', JList [JStr ''no info''])]"
  by (simp add: extract_body_def noname_chat envelope_content noname_loads loads_field_def
      loads_value_def getitem_def wrap_str_def)

lemma acme_name: "map_of acme_record ''vc_name'' = Some (JStr ''Acme Ventures'')"
  by (simp add: acme_record_def)

lemma acme_near_text: "near_text acme_env objs query limit = take limit objs"
  by (simp add: acme_env_def)

lemma acme_scrape_home:
  "fst (scrape_texts_and_links acme_env ''https://example-vc.com'' w)
     = Some (''Acme Ventures invests in fintech. Contact: hello@acme.vc'',
             ''https://example-vc.com/contact (Contact Us)'')"
  by (simp add: scrape_texts_and_links_def acme_env_def acme_page_def)

lemma acme_scrape_plain:
  "fst (scrape_texts_and_links acme_env ''https://example-vc.com/plain'' w)
     = Some (''Acme Ventures invests in fintech.'', [])"
  by (simp add: scrape_texts_and_links_def acme_env_def plain_page_def)

lemma acme_check_and_insert:
  "check_and_insert acme_env acme_record \<lparr>store = [], calls = cs\<rparr>
     = (Inr (), \<lparr>store = [acme_object],
                 calls = cs @ [FetchObjects [''vc_name''],
                               DataInsert acme_record (generate_uuid5 acme_env acme_record)]\<rparr>)"
  by (simp add: check_and_insert_def Let_def log_def fetch_objects_def acme_name py_in_def
      data_insert_def acme_object_def)

lemma acme_similar:
  "similar_and_respond acme_env url acme_record \<lparr>store = [acme_object], calls = cs\<rparr>
     = (Returned (''Message: '' @ format_information acme_record url @ '' '' @ [CHR 0x0A]
                  @ '' Similar companies: '' @ py_repr (JList [JStr ''Acme Ventures''])),
        \<lparr>store = [acme_object], calls = cs @ [NearText (py_repr (JObj acme_record)) 3 True]\<rparr>)"
  by (simp add: similar_and_respond_def Let_def log_def acme_near_text acme_object_def acme_name
      del: py_repr.simps)

lemma acme_run:
  "process_vc_url acme_env ''https://example-vc.com'' empty_world
     = (Returned (''Message: '' @ format_information acme_record ''https://example-vc.com''
                  @ '' '' @ [CHR 0x0A]
                  @ '' Similar companies: '' @ py_repr (JList [JStr ''Acme Ventures''])),
        acme_after)"
  unfolding process_extracted[OF acme_scrape_home acme_extract_body]
  by (simp add: log_def empty_world_def acme_check_and_insert acme_similar acme_after_def
      del: py_repr.simps)

lemma acme_run_plain:
  "process_vc_url acme_env ''https://example-vc.com/plain'' empty_world
     = (Returned (''Message: '' @ format_information acme_record ''https://example-vc.com/plain''
                  @ '' '' @ [CHR 0x0A]
                  @ '' Similar companies: '' @ py_repr (JList [JStr ''Acme Ventures''])),
        \<lparr>store = [acme_object],
         calls = [HttpGet ''https://example-vc.com/plain'',
                  ChatCreate ''Acme Ventures invests in fintech.'',
                  FetchObjects [''vc_name''],
                  DataInsert acme_record (generate_uuid5 acme_env acme_record),
                  NearText (py_repr (JObj acme_record)) 3 True]\<rparr>)"
  unfolding process_extracted[OF acme_scrape_plain acme_extract_body]
  by (simp add: log_def empty_world_def acme_check_and_insert acme_similar
      del: py_repr.simps)

lemma other_chat: "chat_create other_env text = Inr ''R''"
  by (simp add: other_env_def acme_chat)

lemma other_loads:
  "json_loads other_env ''R'' = Inr acme_envelope"
  "json_loads other_env ''C'' = Inr other_content"
  by (simp_all add: other_env_def)

lemma other_extract_body: "extract_body other_env text = Inr other_record"
  by (simp add: extract_body_def other_chat envelope_content other_loads loads_field_def
      loads_value_def other_content_def getitem_def wrap_str_def other_record_def)

lemma other_scrape_home:
  "fst (scrape_texts_and_links other_env ''https://example-vc.com'' w)
     = Some (''Acme Ventures invests in fintech. Contact: hello@acme.vc'',
             ''https://example-vc.com/contact (Contact Us)'')"
  by (simp add: scrape_texts_and_links_def other_env_def acme_env_def acme_page_def)

lemma other_name: "map_of other_record ''vc_name'' = Some (JStr ''Acme Ventures'')"
  by (simp add: other_record_def)

section \<open>The claims\<close>

text \<open>
  C1. The claim: for every request whose fetch fails (network error, or an error status
  such as HTTP 404), the endpoint responds with HTTP 400 and the detail
  \<open>Failed to scrape the website.\<close>, and nothing is asked of the store before that.
  The code does not: \<open>scrape_texts_and_links\<close> returns \<open>None\<close>, and the handler unpacks
  it into \<open>texts, links\<close> before it tests anything, which raises a \<open>TypeError\<close> that
  nothing catches. On a URL that answers 404 the request ends in that exception, after
  the GET alone.
\<close>

theorem fetch_404_unhandled:
  "process_vc_url acme_env ''https://example-vc.com/missing'' empty_world
   = (Unhandled TypeError, \<lparr>store = [], calls = [HttpGet ''https://example-vc.com/missing'']\<rparr>)"
  by (simp add: process_vc_url_def scrape_texts_and_links_def acme_env_def empty_world_def log_def)

text \<open>
  C2. The claim: whenever \<open>extract_vc_information\<close> succeeds, the record has exactly the
  four keys and each of the four values is a sequence, never a bare string. It fails
  for \<open>vc_name\<close>, which is stored as parsed (the record of Acme Ventures holds the bare
  string), and a parsed value that is neither a string nor a list stays what it is (a
  contact given as a number stays a number).
\<close>

theorem extracted_values_counterexample:
  "fst (extract_vc_information acme_env ''Acme'' empty_world) = Some acme_record
   \<and> map_of acme_record ''vc_name'' = Some (JStr ''Acme Ventures'')
   \<and> \<not> is_sequence (JStr ''Acme Ventures'')
   \<and> fst (extract_vc_information numeric_env ''Acme'' empty_world) = Some numeric_record
   \<and> map_of numeric_record ''contacts'' = Some (JInt 5550100)
   \<and> \<not> is_sequence (JInt 5550100)"
  by (simp add: extract_result acme_extract_body numeric_extract_body is_sequence_def
      acme_record_def numeric_record_def)

text \<open>
  C2, as amended. Whenever \<open>extract_vc_information\<close> succeeds, the record has exactly
  the four keys \<open>vc_name\<close>, \<open>contacts\<close>, \<open>industries\<close>, \<open>investment_rounds\<close>; each of
  \<open>contacts\<close>, \<open>industries\<close> and \<open>investment_rounds\<close> is present and never a bare
  string: a parsed string is wrapped into a single-element sequence and any other parsed
  value is kept as it is; \<open>vc_name\<close> is present and kept as parsed.
\<close>

theorem extracted_record_shape:
  assumes "fst (extract_vc_information env text w) = Some ei"
  shows "map fst ei = [''vc_name'', ''contacts'', ''industries'', ''investment_rounds'']
       \<and> (\<forall>k\<in>set [''contacts'', ''industries'', ''investment_rounds''].
             \<exists>v. map_of ei k = Some v \<and> \<not> is_str v)
       \<and> (\<exists>r c. chat_create env text = Inr r \<and> message_content env r = Inr c
             \<and> (\<exists>v. loads_field env c ''vc_name'' = Inr v \<and> map_of ei ''vc_name'' = Some v)
             \<and> (\<forall>k\<in>set [''contacts'', ''industries'', ''investment_rounds''].
                   \<exists>v. loads_field env c k = Inr v
                     \<and> map_of ei k = Some (if is_str v then JList [v] else v)))"
proof -
  from assms have "extract_body env text = Inr ei"
    by (simp add: extract_result split: sum.splits)
  from extract_body_shape[OF this] obtain r c a b i d where
    r: "chat_create env text = Inr r" and c: "message_content env r = Inr c"
    and a: "loads_field env c ''vc_name'' = Inr a"
    and b: "loads_field env c ''contacts'' = Inr b"
    and i: "loads_field env c ''industries'' = Inr i"
    and d: "loads_field env c ''investment_rounds'' = Inr d"
    and ei: "ei = [(''vc_name'', a), (''contacts'', wrap_str b),
                    (''industries'', wrap_str i), (''investment_rounds'', wrap_str d)]"
    by blast
  have ws: "\<And>v. \<not> is_str (wrap_str v)" "\<And>v. wrap_str v = (if is_str v then JList [v] else v)"
    by (simp_all add: wrap_str_def is_str_def split: json.splits)
  have 1: "map fst ei = [''vc_name'', ''contacts'', ''industries'', ''investment_rounds'']"
    by (simp add: ei)
  have 2: "\<forall>k\<in>set [''contacts'', ''industries'', ''investment_rounds''].
             \<exists>v. map_of ei k = Some v \<and> \<not> is_str v"
    by (simp add: ei ws(1))
  have 3: "\<exists>v. loads_field env c ''vc_name'' = Inr v \<and> map_of ei ''vc_name'' = Some v"
    by (simp add: ei a)
  have 4: "\<forall>k\<in>set [''contacts'', ''industries'', ''investment_rounds''].
                   \<exists>v. loads_field env c k = Inr v
                     \<and> map_of ei k = Some (if is_str v then JList [v] else v)"
    using ws(2) by (simp add: ei b i d)
  from 1 2 3 4 r c show ?thesis by blast
qed

text \<open>The record of Acme Ventures.\<close>

theorem extracted_record_shape_witness:
  "fst (extract_vc_information acme_env ''Acme'' empty_world) = Some acme_record
   \<and> map fst acme_record = [''vc_name'', ''contacts'', ''industries'', ''investment_rounds'']
   \<and> map_of acme_record ''vc_name'' = Some (JStr ''Acme Ventures'')
   \<and> map_of acme_record ''contacts'' = Some (JList [JStr ''hello@acme.vc''])
   \<and> map_of acme_record ''industries'' = Some (JList [JStr ''fintech''])
   \<and> map_of acme_record ''investment_rounds'' = Some (JList [JStr ''no info''])
   \<and> \<not> is_str (JList [JStr ''hello@acme.vc''])
   \<and> \<not> is_str (JList [JStr ''fintech''])
   \<and> \<not> is_str (JList [JStr ''no info''])"
proof -
  have h: "fst (extract_vc_information acme_env ''Acme'' empty_world) = Some acme_record"
    by (simp add: extract_result acme_extract_body)
  from extracted_record_shape[OF h] h show ?thesis
    by (simp add: acme_record_def)
qed

text \<open>
  C3. When the extracted \<open>vc_name\<close> equals the \<open>vc_name\<close> of a record that the store
  already holds, the request inserts nothing and leaves the store as it was, whatever
  the other extracted fields are; in particular after a request that returned for a
  name, a further request that extracts the same name leaves the store unchanged.
\<close>

theorem same_name_no_insert:
  assumes "fst (scrape_texts_and_links env url w) = Some (texts, links)"
    and "extract_body env (texts @ links) = Inr ei"
    and "map_of ei ''vc_name'' = Some n"
    and "(\<exists>ob\<in>set (store w). \<exists>m. map_of (obj_props ob) ''vc_name'' = Some m \<and> py_eq n m)
       \<or> (wf_json n
          \<and> process_vc_url env0 url0 w0 = (Returned body0, w)
          \<and> fst (scrape_texts_and_links env0 url0 w0) = Some (texts0, links0)
          \<and> extract_body env0 (texts0 @ links0) = Inr ei0
          \<and> map_of ei0 ''vc_name'' = Some n)"
  shows "store (snd (process_vc_url env url w)) = store w
       \<and> \<not> list_ex is_insert (drop (length (calls w)) (calls (snd (process_vc_url env url w))))"
proof -
  have present: "\<exists>ob\<in>set (store w). \<exists>m. map_of (obj_props ob) ''vc_name'' = Some m \<and> py_eq n m"
    using assms(4)
  proof
    assume "\<exists>ob\<in>set (store w). \<exists>m. map_of (obj_props ob) ''vc_name'' = Some m \<and> py_eq n m"
    then show ?thesis .
  next
    assume first: "wf_json n
          \<and> process_vc_url env0 url0 w0 = (Returned body0, w)
          \<and> fst (scrape_texts_and_links env0 url0 w0) = Some (texts0, links0)
          \<and> extract_body env0 (texts0 @ links0) = Inr ei0
          \<and> map_of ei0 ''vc_name'' = Some n"
    then have run: "process_vc_url env0 url0 w0 = (Returned body0, w)" by simp
    from process_returned[OF run] first obtain w3 where
      ci: "check_and_insert env0 ei0 (log (ChatCreate (texts0 @ links0)) (log (HttpGet url0) w0))
             = (Inr (), w3)"
      and sr: "similar_and_respond env0 url0 ei0 w3 = (Returned body0, w)"
      by auto
    from sr have "store w = store w3"
      using similar_world[of env0 url0 ei0 w3] by (simp add: log_store)
    with check_and_insert_ok_present[OF ci] first show ?thesis by simp
  qed
  then obtain ob m where ob: "ob \<in> set (store w)" "map_of (obj_props ob) ''vc_name'' = Some m"
    "py_eq n m" by blast
  from present_no_insert[OF assms(1-3) ob]
  obtain evs where st: "store (snd (process_vc_url env url w)) = store w"
    and cs: "calls (snd (process_vc_url env url w))
               = calls w @ [HttpGet url, ChatCreate (texts @ links), FetchObjects [''vc_name'']] @ evs"
    and evs: "evs = [] \<or> evs = [NearText (py_repr (JObj ei)) 3 True]"
    by blast
  from evs have "\<not> list_ex is_insert
                    ([HttpGet url, ChatCreate (texts @ links), FetchObjects [''vc_name'']] @ evs)"
    by (auto simp: is_insert_def)
  with st cs show ?thesis by simp
qed

text \<open>
  Acme Ventures is submitted a second time, and the model now finds other contacts,
  industries and rounds.
\<close>

theorem same_name_no_insert_witness:
  "fst (scrape_texts_and_links other_env ''https://example-vc.com'' acme_after)
     = Some (''Acme Ventures invests in fintech. Contact: hello@acme.vc'',
             ''https://example-vc.com/contact (Contact Us)'')
   \<and> extract_body other_env (''Acme Ventures invests in fintech. Contact: hello@acme.vc''
                              @ ''https://example-vc.com/contact (Contact Us)'') = Inr other_record
   \<and> map_of other_record ''vc_name'' = Some (JStr ''Acme Ventures'')
   \<and> other_record \<noteq> acme_record
   \<and> wf_json (JStr ''Acme Ventures'')
   \<and> process_vc_url acme_env ''https://example-vc.com'' empty_world
       = (Returned (''Message: '' @ format_information acme_record ''https://example-vc.com''
                    @ '' '' @ [CHR 0x0A]
                    @ '' Similar companies: '' @ py_repr (JList [JStr ''Acme Ventures''])),
          acme_after)
   \<and> fst (scrape_texts_and_links acme_env ''https://example-vc.com'' empty_world)
       = Some (''Acme Ventures invests in fintech. Contact: hello@acme.vc'',
               ''https://example-vc.com/contact (Contact Us)'')
   \<and> extract_body acme_env (''Acme Ventures invests in fintech. Contact: hello@acme.vc''
                              @ ''https://example-vc.com/contact (Contact Us)'') = Inr acme_record
   \<and> map_of acme_record ''vc_name'' = Some (JStr ''Acme Ventures'')
   \<and> store (snd (process_vc_url other_env ''https://example-vc.com'' acme_after)) = [acme_object]
   \<and> \<not> list_ex is_insert
         (drop (length (calls acme_after))
            (calls (snd (process_vc_url other_env ''https://example-vc.com'' acme_after))))"
proof -
  let ?t = "''Acme Ventures invests in fintech. Contact: hello@acme.vc''"
  let ?l = "''https://example-vc.com/contact (Contact Us)''"
  have h1: "fst (scrape_texts_and_links other_env ''https://example-vc.com'' acme_after) = Some (?t, ?l)"
    by (rule other_scrape_home)
  have h2: "extract_body other_env (?t @ ?l) = Inr other_record" by (rule other_extract_body)
  have h3: "map_of other_record ''vc_name'' = Some (JStr ''Acme Ventures'')" by (rule other_name)
  have g1: "wf_json (JStr ''Acme Ventures'')" by simp
  have g3: "fst (scrape_texts_and_links acme_env ''https://example-vc.com'' empty_world) = Some (?t, ?l)"
    by (rule acme_scrape_home)
  have g4: "extract_body acme_env (?t @ ?l) = Inr acme_record" by (rule acme_extract_body)
  have ne: "other_record \<noteq> acme_record" by (simp add: other_record_def acme_record_def)
  have st: "store acme_after = [acme_object]" by (simp add: acme_after_def)
  have h4: "(\<exists>ob\<in>set (store acme_after). \<exists>m. map_of (obj_props ob) ''vc_name'' = Some m
                \<and> py_eq (JStr ''Acme Ventures'') m)
       \<or> (wf_json (JStr ''Acme Ventures'')
          \<and> process_vc_url acme_env ''https://example-vc.com'' empty_world
              = (Returned (''Message: '' @ format_information acme_record ''https://example-vc.com''
                    @ '' '' @ [CHR 0x0A]
                    @ '' Similar companies: '' @ py_repr (JList [JStr ''Acme Ventures''])),
                 acme_after)
          \<and> fst (scrape_texts_and_links acme_env ''https://example-vc.com'' empty_world) = Some (?t, ?l)
          \<and> extract_body acme_env (?t @ ?l) = Inr acme_record
          \<and> map_of acme_record ''vc_name'' = Some (JStr ''Acme Ventures''))"
    using g1 acme_run g3 g4 acme_name by blast
  from same_name_no_insert[OF h1 h2 h3 h4] h1 h2 h3 g1 acme_run g3 g4 acme_name ne st
  show ?thesis by simp
qed

text \<open>
  C4. For every extracted record and URL, \<open>format_information\<close> gives the introductory
  sentence and then one line per field, newline-terminated, in the order \<open>vc_name\<close>,
  \<open>contacts\<close>, \<open>industries\<close>, \<open>investment_rounds\<close>: the check-manually sentence
  when the value is exactly \<open>["no info"]\<close>, and \<open>- Field: value\<close> with the capitalized
  field name for any other value.
\<close>

theorem format_information_lines:
  "format_information
     [(''vc_name'', a), (''contacts'', b), (''industries'', c), (''investment_rounds'', d)] url
   = ''The information from the URL is the following: '' @ [CHR 0x0A]
     @ summary_line url ''Vc_name'' a
     @ summary_line url ''Contacts'' b
     @ summary_line url ''Industries'' c
     @ summary_line url ''Investment_rounds'' d"
  by (simp add: format_information_def format_item_line
      capitalize_vc_name capitalize_contacts capitalize_industries capitalize_investment_rounds)

text \<open>The summary of the record of Acme Ventures, whose investment rounds are unknown.\<close>

theorem format_information_lines_witness:
  "format_information acme_record ''https://example-vc.com''
   = ''The information from the URL is the following: '' @ [CHR 0x0A]
     @ ''- Vc_name: Acme Ventures'' @ [CHR 0x0A]
     @ ''- Contacts: ['' @ [CHR 0x27] @ ''hello@acme.vc'' @ [CHR 0x27] @ '']'' @ [CHR 0x0A]
     @ ''- Industries: ['' @ [CHR 0x27] @ ''fintech'' @ [CHR 0x27] @ '']'' @ [CHR 0x0A]
     @ ''- There is not much information available about Investment_rounds. You can check it manually by visiting the website: https://example-vc.com'' @ [CHR 0x0A]"
proof -
  have "format_information acme_record ''https://example-vc.com''
        = ''The information from the URL is the following: '' @ [CHR 0x0A]
          @ summary_line ''https://example-vc.com'' ''Vc_name'' (JStr ''Acme Ventures'')
          @ summary_line ''https://example-vc.com'' ''Contacts'' (JList [JStr ''hello@acme.vc''])
          @ summary_line ''https://example-vc.com'' ''Industries'' (JList [JStr ''fintech''])
          @ summary_line ''https://example-vc.com'' ''Investment_rounds'' (JList [JStr ''no info''])"
    unfolding acme_record_def by (rule format_information_lines)
  also have "\<dots> = ''The information from the URL is the following: '' @ [CHR 0x0A]
     @ ''- Vc_name: Acme Ventures'' @ [CHR 0x0A]
     @ ''- Contacts: ['' @ [CHR 0x27] @ ''hello@acme.vc'' @ [CHR 0x27] @ '']'' @ [CHR 0x0A]
     @ ''- Industries: ['' @ [CHR 0x27] @ ''fintech'' @ [CHR 0x27] @ '']'' @ [CHR 0x0A]
     @ ''- There is not much information available about Investment_rounds. You can check it manually by visiting the website: https://example-vc.com'' @ [CHR 0x0A]"
    by (simp add: summary_line_def py_str_def str_repr_def repr_char_def printable_def Let_def)
  finally show ?thesis .
qed

text \<open>
  C5. When the structured extraction fails (the call of the model raises, the response
  or its message content is not the JSON expected, or one of the four keys is missing),
  \<open>extract_vc_information\<close> returns \<open>None\<close> and the endpoint responds with HTTP 500
  and the detail \<open>Failed to extract information.\<close>; the model has been called once,
  and nothing is asked of the store.
\<close>

theorem extraction_failure_500:
  assumes "fst (scrape_texts_and_links env url w) = Some (texts, links)"
    and "chat_create env (texts @ links) = Inl e
       \<or> (\<exists>r. chat_create env (texts @ links) = Inr r \<and> message_content env r = Inl e)
       \<or> (\<exists>r c. chat_create env (texts @ links) = Inr r \<and> message_content env r = Inr c
              \<and> loads_value env c = Inl e)
       \<or> (\<exists>r c v k. chat_create env (texts @ links) = Inr r \<and> message_content env r = Inr c
              \<and> loads_value env c = Inr v
              \<and> k \<in> set [''vc_name'', ''contacts'', ''industries'', ''investment_rounds'']
              \<and> getitem v k = Inl e)"
  shows "fst (extract_vc_information env (texts @ links) (log (HttpGet url) w)) = None
       \<and> process_vc_url env url w
           = (HTTPException 500 ''Failed to extract information.'',
              w\<lparr>calls := calls w @ [HttpGet url, ChatCreate (texts @ links)]\<rparr>)"
proof -
  have "\<exists>e'. extract_body env (texts @ links) = Inl e'"
    using assms(2) unfolding extract_body_def loads_field_def
    by (auto split: sum.splits)
  then obtain e' where e': "extract_body env (texts @ links) = Inl e'" ..
  from process_extract_failed[OF assms(1) e'] e' show ?thesis
    by (simp add: extract_result log_def)
qed

text \<open>The model leaves out the key \<open>industries\<close>.\<close>

theorem extraction_failure_500_witness:
  "fst (scrape_texts_and_links partial_env ''https://example-vc.com/plain'' empty_world)
     = Some (''Acme Ventures invests in fintech.'', [])
   \<and> chat_create partial_env ''Acme Ventures invests in fintech.'' = Inr ''R''
   \<and> message_content partial_env ''R'' = Inr (JStr ''C'')
   \<and> loads_value partial_env (JStr ''C'')
       = Inr (JObj [(''vc_name'', JStr ''Acme Ventures''), (''contacts'', JStr ''hello@acme.vc'')])
   \<and> getitem (JObj [(''vc_name'', JStr ''Acme Ventures''), (''contacts'', JStr ''hello@acme.vc'')])
        ''industries'' = Inl KeyError
   \<and> process_vc_url partial_env ''https://example-vc.com/plain'' empty_world
       = (HTTPException 500 ''Failed to extract information.'',
          \<lparr>store = [], calls = [HttpGet ''https://example-vc.com/plain'',
                                 ChatCreate ''Acme Ventures invests in fintech.'']\<rparr>)"
proof -
  let ?v = "JObj [(''vc_name'', JStr ''Acme Ventures''), (''contacts'', JStr ''hello@acme.vc'')]"
  have h1: "fst (scrape_texts_and_links partial_env ''https://example-vc.com/plain'' empty_world)
     = Some (''Acme Ventures invests in fintech.'', [])"
    by (simp add: scrape_texts_and_links_def partial_env_def acme_env_def plain_page_def)
  have h2: "chat_create partial_env ''Acme Ventures invests in fintech.'' = Inr ''R''"
    by (rule partial_chat)
  have h3: "message_content partial_env ''R'' = Inr (JStr ''C'')"
    by (simp add: envelope_content partial_loads)
  have h4: "loads_value partial_env (JStr ''C'') = Inr ?v"
    by (simp add: loads_value_def partial_loads)
  have h5: "getitem ?v ''industries'' = Inl KeyError"
    by (simp add: getitem_def)
  have h6: "''industries'' \<in> set [''vc_name'', ''contacts'', ''industries'', ''investment_rounds'']"
    by simp
  have "chat_create partial_env (''Acme Ventures invests in fintech.'' @ []) = Inl KeyError
       \<or> (\<exists>r. chat_create partial_env (''Acme Ventures invests in fintech.'' @ []) = Inr r
              \<and> message_content partial_env r = Inl KeyError)
       \<or> (\<exists>r c. chat_create partial_env (''Acme Ventures invests in fintech.'' @ []) = Inr r
              \<and> message_content partial_env r = Inr c
              \<and> loads_value partial_env c = Inl KeyError)
       \<or> (\<exists>r c v k. chat_create partial_env (''Acme Ventures invests in fintech.'' @ []) = Inr r
              \<and> message_content partial_env r = Inr c
              \<and> loads_value partial_env c = Inr v
              \<and> k \<in> set [''vc_name'', ''contacts'', ''industries'', ''investment_rounds'']
              \<and> getitem v k = Inl KeyError)"
    using h2 h3 h4 h5 h6 by (intro disjI2) (simp del: set_simps, blast)
  from extraction_failure_500[OF h1 this] h1 h2 h3 h4 h5
  show ?thesis by (simp add: empty_world_def)
qed

text \<open>
  C6. The identifier given to a record at insert time is \<open>generate_uuid5\<close> of the full
  record and of nothing else: two requests that insert records with the same content
  give them the same identifier, whatever the URLs, the pages and the stores are.
\<close>

theorem identifier_function_of_record:
  assumes "process_vc_url env1 url1 w1 = (r1, w1')" and "store w1' = store w1 @ [o1]"
    and "process_vc_url env2 url2 w2 = (r2, w2')" and "store w2' = store w2 @ [o2]"
    and "generate_uuid5 env1 = generate_uuid5 env2"
    and "obj_props o1 = obj_props o2"
  shows "obj_uuid o1 = generate_uuid5 env1 (obj_props o1) \<and> obj_uuid o1 = obj_uuid o2"
proof -
  have id: "obj_uuid ob = generate_uuid5 env (obj_props ob)"
    if "process_vc_url env url w = (r, w')" and "store w' = store w @ [ob]"
    for env url w r w' ob
    using process_store_cases[OF that(1)] that(2) by auto
  from id[OF assms(1,2)] id[OF assms(3,4)] assms(5,6) show ?thesis by simp
qed

text \<open>Two pages of the same site that yield the same record.\<close>

theorem identifier_function_of_record_witness:
  "process_vc_url acme_env ''https://example-vc.com'' empty_world
     = (Returned (''Message: '' @ format_information acme_record ''https://example-vc.com''
                  @ '' '' @ [CHR 0x0A]
                  @ '' Similar companies: '' @ py_repr (JList [JStr ''Acme Ventures''])),
        acme_after)
   \<and> store acme_after = store empty_world @ [acme_object]
   \<and> snd (process_vc_url acme_env ''https://example-vc.com/plain'' empty_world)
       = \<lparr>store = [acme_object],
          calls = [HttpGet ''https://example-vc.com/plain'',
                   ChatCreate ''Acme Ventures invests in fintech.'',
                   FetchObjects [''vc_name''],
                   DataInsert acme_record (generate_uuid5 acme_env acme_record),
                   NearText (py_repr (JObj acme_record)) 3 True]\<rparr>
   \<and> obj_uuid acme_object = generate_uuid5 acme_env (obj_props acme_object)
   \<and> obj_uuid acme_object = obj_uuid acme_object"
proof -
  have s1: "store acme_after = store empty_world @ [acme_object]"
    by (simp add: acme_after_def empty_world_def)
  let ?w = "\<lparr>store = [acme_object],
          calls = [HttpGet ''https://example-vc.com/plain'',
                   ChatCreate ''Acme Ventures invests in fintech.'',
                   FetchObjects [''vc_name''],
                   DataInsert acme_record (generate_uuid5 acme_env acme_record),
                   NearText (py_repr (JObj acme_record)) 3 True]\<rparr>"
  have s2: "store ?w = store empty_world @ [acme_object]"
    by (simp add: empty_world_def)
  from identifier_function_of_record[OF acme_run s1 acme_run_plain s2 refl refl] acme_run s1
    acme_run_plain
  show ?thesis by simp
qed

text \<open>
  C7. For every page without an anchor that has an \<open>href\<close>, the link summary is the
  empty string, and the text handed to the model is the plain text alone.
\<close>

theorem no_anchors_text_alone:
  assumes "requests_get env url = HttpResponse status pg"
    and "\<not> (400 \<le> status \<and> status < 600)"
    and "page_anchors pg = []"
  shows "fst (scrape_texts_and_links env url w) = Some (page_text pg, [])
       \<and> (\<exists>evs. calls (snd (process_vc_url env url w))
                  = calls w @ HttpGet url # ChatCreate (page_text pg) # evs)"
proof -
  have sc: "fst (scrape_texts_and_links env url w) = Some (page_text pg, [])"
    using assms by (simp add: scrape_texts_and_links_def)
  from process_calls_prefix[OF sc] sc show ?thesis by simp
qed

text \<open>The page without anchors of the concrete run.\<close>

theorem no_anchors_text_alone_witness:
  "requests_get acme_env ''https://example-vc.com/plain'' = HttpResponse 200 plain_page
   \<and> \<not> (400 \<le> (200::nat) \<and> (200::nat) < 600)
   \<and> page_anchors plain_page = []
   \<and> fst (scrape_texts_and_links acme_env ''https://example-vc.com/plain'' empty_world)
       = Some (''Acme Ventures invests in fintech.'', [])
   \<and> (\<exists>evs. calls (snd (process_vc_url acme_env ''https://example-vc.com/plain'' empty_world))
              = HttpGet ''https://example-vc.com/plain''
                # ChatCreate ''Acme Ventures invests in fintech.'' # evs)"
proof -
  have h1: "requests_get acme_env ''https://example-vc.com/plain'' = HttpResponse 200 plain_page"
    by (simp add: acme_env_def)
  have h2: "\<not> (400 \<le> (200::nat) \<and> (200::nat) < 600)" by simp
  have h3: "page_anchors plain_page = []" by (simp add: plain_page_def)
  from no_anchors_text_alone[OF h1 h2 h3, of empty_world] h1 h2 h3
  show ?thesis by (simp add: plain_page_def empty_world_def)
qed

text \<open>
  C8. Every request that returns has made exactly one nearest-neighbour query, as its
  last call; the query text is the textual form of the newly extracted record (not the
  scraped text), the limit is 3 and the distance is asked for; the returned message
  shows, of each match, the \<open>vc_name\<close> property only.
\<close>

theorem similarity_query_of_record:
  assumes "process_vc_url env url w = (Returned body, w')"
  shows "\<exists>texts links ei ins names.
           fst (scrape_texts_and_links env url w) = Some (texts, links)
         \<and> extract_body env (texts @ links) = Inr ei
         \<and> calls w' = calls w @ [HttpGet url, ChatCreate (texts @ links), FetchObjects [''vc_name'']]
                         @ ins @ [NearText (py_repr (JObj ei)) 3 True]
         \<and> (ins = [] \<or> ins = [DataInsert ei (generate_uuid5 env ei)])
         \<and> property_list ''vc_name'' (near_text env (store w') (py_repr (JObj ei)) 3) = Inr names
         \<and> body = ''Message: '' @ format_information ei url @ '' '' @ [CHR 0x0A]
                    @ '' Similar companies: '' @ py_repr (JList names)"
proof -
  from process_returned[OF assms] obtain texts links ei w3 where
    sc: "fst (scrape_texts_and_links env url w) = Some (texts, links)"
    and ex: "extract_body env (texts @ links) = Inr ei"
    and ci: "check_and_insert env ei (log (ChatCreate (texts @ links)) (log (HttpGet url) w))
               = (Inr (), w3)"
    and sr: "similar_and_respond env url ei w3 = (Returned body, w')"
    by blast
  from sr have w': "w' = log (NearText (py_repr (JObj ei)) 3 True) w3"
    using similar_world[of env url ei w3] by simp
  from similar_returned[OF sr] obtain names where
    names: "property_list ''vc_name'' (near_text env (store w3) (py_repr (JObj ei)) 3) = Inr names"
    and body: "body = ''Message: '' @ format_information ei url @ '' '' @ [CHR 0x0A]
                    @ '' Similar companies: '' @ py_repr (JList names)"
    by blast
  from check_and_insert_store[OF ci]
  have "\<exists>ins. calls w3 = calls w @ [HttpGet url, ChatCreate (texts @ links), FetchObjects [''vc_name'']] @ ins
           \<and> (ins = [] \<or> ins = [DataInsert ei (generate_uuid5 env ei)])"
    by (auto simp: log_calls)
  then obtain ins where
    c3: "calls w3 = calls w @ [HttpGet url, ChatCreate (texts @ links), FetchObjects [''vc_name'']] @ ins"
    and ins: "ins = [] \<or> ins = [DataInsert ei (generate_uuid5 env ei)]" by blast
  have "calls w' = calls w @ [HttpGet url, ChatCreate (texts @ links), FetchObjects [''vc_name'']]
                         @ ins @ [NearText (py_repr (JObj ei)) 3 True]"
    by (simp add: w' log_calls c3)
  moreover have "store w' = store w3" by (simp add: w' log_store)
  ultimately show ?thesis using sc ex ins names body by metis
qed

text \<open>The first submission of Acme Ventures.\<close>

theorem similarity_query_of_record_witness:
  "process_vc_url acme_env ''https://example-vc.com'' empty_world
     = (Returned (''Message: '' @ format_information acme_record ''https://example-vc.com''
                  @ '' '' @ [CHR 0x0A]
                  @ '' Similar companies: '' @ py_repr (JList [JStr ''Acme Ventures''])),
        acme_after)
   \<and> (\<exists>texts links ei ins names.
           fst (scrape_texts_and_links acme_env ''https://example-vc.com'' empty_world)
             = Some (texts, links)
         \<and> extract_body acme_env (texts @ links) = Inr ei
         \<and> calls acme_after
             = calls empty_world @ [HttpGet ''https://example-vc.com'', ChatCreate (texts @ links),
                                    FetchObjects [''vc_name'']]
               @ ins @ [NearText (py_repr (JObj ei)) 3 True]
         \<and> (ins = [] \<or> ins = [DataInsert ei (generate_uuid5 acme_env ei)])
         \<and> property_list ''vc_name'' (near_text acme_env (store acme_after) (py_repr (JObj ei)) 3)
             = Inr names
         \<and> ''Message: '' @ format_information acme_record ''https://example-vc.com''
                  @ '' '' @ [CHR 0x0A]
                  @ '' Similar companies: '' @ py_repr (JList [JStr ''Acme Ventures''])
           = ''Message: '' @ format_information ei ''https://example-vc.com'' @ '' '' @ [CHR 0x0A]
                    @ '' Similar companies: '' @ py_repr (JList names))"
  using similarity_query_of_record[OF acme_run] acme_run by blast

text \<open>
  C9. No request updates or deletes a record: after any request the store is what it
  was, or what it was followed by one new record; a record is appended only when the
  extraction succeeded and no record of the store had the extracted \<open>vc_name\<close>.
\<close>

theorem store_only_appends:
  assumes "process_vc_url env url w = (r, w')"
  shows "take (length (store w)) (store w') = store w
       \<and> (store w' = store w
          \<or> (\<exists>texts links ei n.
                fst (scrape_texts_and_links env url w) = Some (texts, links) \<and>
                extract_body env (texts @ links) = Inr ei \<and>
                map_of ei ''vc_name'' = Some n \<and>
                (\<forall>ob\<in>set (store w). \<forall>m. map_of (obj_props ob) ''vc_name'' = Some m
                                          \<longrightarrow> \<not> py_eq n m) \<and>
                store w' = store w @ [\<lparr>obj_uuid = generate_uuid5 env ei, obj_props = ei\<rparr>]))"
proof -
  note cases = process_store_cases[OF assms]
  then have "take (length (store w)) (store w') = store w" by auto
  with cases show ?thesis by blast
qed

text \<open>The first submission of Acme Ventures appends its record to the empty store.\<close>

theorem store_only_appends_witness:
  "process_vc_url acme_env ''https://example-vc.com'' empty_world
     = (Returned (''Message: '' @ format_information acme_record ''https://example-vc.com''
                  @ '' '' @ [CHR 0x0A]
                  @ '' Similar companies: '' @ py_repr (JList [JStr ''Acme Ventures''])),
        acme_after)
   \<and> take (length (store empty_world)) (store acme_after) = store empty_world
   \<and> store acme_after = store empty_world @ [acme_object]
   \<and> (store acme_after = store empty_world
          \<or> (\<exists>texts links ei n.
                fst (scrape_texts_and_links acme_env ''https://example-vc.com'' empty_world)
                  = Some (texts, links) \<and>
                extract_body acme_env (texts @ links) = Inr ei \<and>
                map_of ei ''vc_name'' = Some n \<and>
                (\<forall>ob\<in>set (store empty_world). \<forall>m. map_of (obj_props ob) ''vc_name'' = Some m
                                          \<longrightarrow> \<not> py_eq n m) \<and>
                store acme_after
                  = store empty_world @ [\<lparr>obj_uuid = generate_uuid5 acme_env ei, obj_props = ei\<rparr>]))"
proof -
  have "store acme_after = store empty_world @ [acme_object]"
    by (simp add: acme_after_def empty_world_def)
  with store_only_appends[OF acme_run] acme_run show ?thesis by blast
qed

text \<open>
  C10. The value of \<open>vc_name\<close> is kept as parsed from the model's response and never
  wrapped into a sequence; so when the model returns the string \<open>no info\<close> for it, the
  comparison with \<open>["no info"]\<close> fails and the summary has the line
  \<open>- Vc_name: no info\<close>, not the check-manually sentence.
\<close>

theorem vc_name_kept_raw:
  assumes "fst (extract_vc_information env text w) = Some ei"
    and "chat_create env text = Inr r"
    and "message_content env r = Inr c"
    and "loads_field env c ''vc_name'' = Inr v"
  shows "map_of ei ''vc_name'' = Some v
       \<and> (v = JStr ''no info'' \<longrightarrow>
            \<not> py_eq v (JList [JStr ''no info'']) \<and>
            (\<exists>rest. format_information ei url
               = ''The information from the URL is the following: '' @ [CHR 0x0A]
                 @ ''- Vc_name: no info'' @ [CHR 0x0A] @ rest))"
proof -
  from assms(1) have "extract_body env text = Inr ei"
    by (simp add: extract_result split: sum.splits)
  from extract_body_shape[OF this] assms(2-4) obtain b i d where
    ei: "ei = [(''vc_name'', v), (''contacts'', wrap_str b),
               (''industries'', wrap_str i), (''investment_rounds'', wrap_str d)]"
    by auto
  have "format_information ei url
        = ''The information from the URL is the following: '' @ [CHR 0x0A]
          @ summary_line url ''Vc_name'' v
          @ (summary_line url ''Contacts'' (wrap_str b)
             @ summary_line url ''Industries'' (wrap_str i)
             @ summary_line url ''Investment_rounds'' (wrap_str d))"
    unfolding ei
    by (simp add: format_information_def format_item_line
      capitalize_vc_name capitalize_contacts capitalize_industries capitalize_investment_rounds)
  moreover have "summary_line url ''Vc_name'' (JStr ''no info'') = ''- Vc_name: no info'' @ [CHR 0x0A]"
    by (simp add: summary_line_def py_str_def)
  ultimately show ?thesis by (auto simp: ei)
qed

text \<open>The model finds nothing at all.\<close>

theorem vc_name_kept_raw_witness:
  "fst (extract_vc_information noname_env ''Acme'' empty_world)
     = Some [(''vc_name'', JStr ''no info''),
             (''contacts'', JList [JStr ''no info'']),
             (''industries'', JList [JStr ''no info'']),
             (''investment_rounds'', JList [JStr ''no info''])]
   \<and> chat_create noname_env ''Acme'' = Inr ''R''
   \<and> message_content noname_env ''R'' = Inr (JStr ''C'')
   \<and> loads_field noname_env (JStr ''C'') ''vc_name'' = Inr (JStr ''no info'')
   \<and> \<not> py_eq (JStr ''no info'') (JList [JStr ''no info''])
   \<and> (\<exists>rest. format_information
                [(''vc_name'', JStr ''no info''),
                 (''contacts'', JList [JStr ''no info'']),
                 (''industries'', JList [JStr ''no info'']),
                 (''investment_rounds'', JList [JStr ''no info''])] ''https://example-vc.com''
               = ''The information from the URL is the following: '' @ [CHR 0x0A]
                 @ ''- Vc_name: no info'' @ [CHR 0x0A] @ rest)"
proof -
  have h1: "fst (extract_vc_information noname_env ''Acme'' empty_world)
     = Some [(''vc_name'', JStr ''no info''),
             (''contacts'', JList [JStr ''no info'']),
             (''industries'', JList [JStr ''no info'']),
             (''investment_rounds'', JList [JStr ''no info''])]"
    by (simp add: extract_result noname_extract_body)
  have h2: "chat_create noname_env ''Acme'' = Inr ''R''" by (rule noname_chat)
  have h3: "message_content noname_env ''R'' = Inr (JStr ''C'')"
    by (simp add: envelope_content noname_loads)
  have h4: "loads_field noname_env (JStr ''C'') ''vc_name'' = Inr (JStr ''no info'')"
    by (simp add: loads_field_def loads_value_def noname_loads getitem_def)
  from vc_name_kept_raw[OF h1 h2 h3 h4, of "''https://example-vc.com''"] h1 h2 h3 h4
  show ?thesis by blast
qed

end
